theory Spec2Isabelle
  imports Main "HOL-Library.Word"
begin

unbundle bit_operations_syntax

section \<open>lmarshal.c: a shallow embedding\<close>

text \<open>
  The model follows \<^verbatim>\<open>src/lmarshal.c\<close> function by function. The platform is the one
  the file is written for: 8-bit \<^verbatim>\<open>char\<close>, 32-bit \<^verbatim>\<open>int\<close>, 64-bit \<^verbatim>\<open>size_t\<close>,
  \<^verbatim>\<open>lua_Number = double\<close> (8 bytes), little-endian byte order. A C \<^verbatim>\<open>int\<close> is a
  \<open>32 word\<close>, a \<^verbatim>\<open>size_t\<close> that is an offset or a length is a \<open>nat\<close> (its 64 bits are
  never exhausted by the sums the code forms), and a number is the bit pattern of its
  double.
\<close>

subsection \<open>Constants\<close>

type_synonym byte = "8 word"
type_synonym cint = "32 word"

abbreviation (input) MAR_TREF :: cint where "MAR_TREF \<equiv> 1"
abbreviation (input) MAR_TVAL :: cint where "MAR_TVAL \<equiv> 2"
abbreviation (input) MAR_TUSR :: cint where "MAR_TUSR \<equiv> 3"

abbreviation (input) MAR_CHR :: nat where "MAR_CHR \<equiv> 1"
abbreviation (input) MAR_I32 :: nat where "MAR_I32 \<equiv> 4"
abbreviation (input) MAR_I64 :: nat where "MAR_I64 \<equiv> 8"

abbreviation (input) MAR_MAGIC :: byte where "MAR_MAGIC \<equiv> 0x8e"

abbreviation (input) UINT32_MAX :: nat where "UINT32_MAX \<equiv> 4294967295"

text \<open>
  The type codes of \<^verbatim>\<open>lua.h\<close> (Lua 5.1, the version whose API the file uses:
  \<^verbatim>\<open>luaL_reg\<close>, \<^verbatim>\<open>lua_objlen\<close>, \<^verbatim>\<open>luaL_openlib\<close>). The header belongs to Lua, not to
  this repository.
\<close>

abbreviation (input) LUA_TNIL :: cint where "LUA_TNIL \<equiv> 0"
abbreviation (input) LUA_TBOOLEAN :: cint where "LUA_TBOOLEAN \<equiv> 1"
abbreviation (input) LUA_TLIGHTUSERDATA :: cint where "LUA_TLIGHTUSERDATA \<equiv> 2"
abbreviation (input) LUA_TNUMBER :: cint where "LUA_TNUMBER \<equiv> 3"
abbreviation (input) LUA_TSTRING :: cint where "LUA_TSTRING \<equiv> 4"
abbreviation (input) LUA_TTABLE :: cint where "LUA_TTABLE \<equiv> 5"
abbreviation (input) LUA_TFUNCTION :: cint where "LUA_TFUNCTION \<equiv> 6"
abbreviation (input) LUA_TUSERDATA :: cint where "LUA_TUSERDATA \<equiv> 7"
abbreviation (input) LUA_TTHREAD :: cint where "LUA_TTHREAD \<equiv> 8"

subsection \<open>Objects in memory\<close>

text \<open>
  \<open>obj_bytes n w\<close> is the memory image of an \<open>n\<close>-byte integer object on the
  little-endian host, lowest byte first; \<open>obj_value\<close> reads such an image back
  (\<^verbatim>\<open>*(T* )p\<close>).
\<close>

fun obj_bytes :: "nat \<Rightarrow> 'a::len word \<Rightarrow> byte list" where
  "obj_bytes 0 w = []"
| "obj_bytes (Suc n) w = ucast w # obj_bytes n (drop_bit 8 w)"

fun obj_value :: "byte list \<Rightarrow> 'a::len word" where
  "obj_value [] = 0"
| "obj_value (b # bs) = ucast b OR push_bit 8 (obj_value bs)"

definition int_obj :: "cint \<Rightarrow> byte list" where
  "int_obj w = obj_bytes 4 w"

definition size_t_obj :: "nat \<Rightarrow> byte list" where
  "size_t_obj n = obj_bytes 8 (word_of_nat n :: 64 word)"

definition double_obj :: "64 word \<Rightarrow> byte list" where
  "double_obj d = obj_bytes 8 d"

subsection \<open>Lua values and the heap\<close>

text \<open>
  A value of the Lua stack. Tables, functions, full userdata and coroutines are
  references: the \<open>nat\<close> is the identity of the object. A number is the bit pattern of
  its double.
\<close>

datatype lval =
    LNil
  | LBool bool
  | LLight nat
  | LNum "64 word"
  | LStr "byte list"
  | LTab nat
  | LFun nat
  | LUsr nat
  | LThread nat

fun lua_type :: "lval \<Rightarrow> cint" where
  "lua_type LNil = LUA_TNIL"
| "lua_type (LBool b) = LUA_TBOOLEAN"
| "lua_type (LLight a) = LUA_TLIGHTUSERDATA"
| "lua_type (LNum d) = LUA_TNUMBER"
| "lua_type (LStr s) = LUA_TSTRING"
| "lua_type (LTab a) = LUA_TTABLE"
| "lua_type (LFun a) = LUA_TFUNCTION"
| "lua_type (LUsr a) = LUA_TUSERDATA"
| "lua_type (LThread a) = LUA_TTHREAD"

text \<open>
  A table is its pairs in the order \<^verbatim>\<open>lua_next\<close> visits them, and the \<^verbatim>\<open>__persist\<close>
  field of its metatable when it has one (\<^verbatim>\<open>luaL_getmetafield\<close>). A function is what
  \<^verbatim>\<open>lua_getinfo\<close> calls it (\<^verbatim>\<open>ar.what\<close>), the bytes \<^verbatim>\<open>lua_dump\<close> writes for it (none
  for a C function) and its upvalues. A full userdata is its \<^verbatim>\<open>__persist\<close> metafield.
\<close>

record ltable =
  tpairs :: "(lval \<times> lval) list"
  tpersist :: "lval option"

datatype fwhat = WhatLua | WhatC | WhatMain

record lclosure =
  fwhat :: fwhat
  fdump :: "byte list"
  fupvals :: "lval list"

record heap =
  tabs :: "ltable list"
  funs :: "lclosure list"
  usrs :: "lval option list"

subsection \<open>Outcomes\<close>

text \<open>
  Every \<^verbatim>\<open>luaL_error\<close> of the file is a constructor, and so are the errors the Lua
  runtime raises inside the API calls the file makes. \<open>Undefined\<close> is not an error the
  program raises: it stands for behaviour that neither C nor the Lua API defines (a read
  outside the memory the caller owns, \<^verbatim>\<open>lua_next\<close> on a value that is no table, a
  stack left unbalanced). \<open>OutOfFuel\<close> belongs to the model of the packer alone.
\<close>

datatype error =
    OutOfMemory
  | BufferTooLong
  | PersistMustReturnFunction
  | PersistCFunction
  | InvalidValueType
  | BadCode
  | BadEncodedData
  | BadHeader
  | BadMagic
  | TableIndexIsNil
  | TableIndexIsNaN
  | HostError
  | Undefined
  | OutOfFuel

type_synonym 'a res = "error + 'a"

definition bnd :: "'a res \<Rightarrow> ('a \<Rightarrow> 'b res) \<Rightarrow> 'b res" where
  "bnd m f = (case m of Inl e \<Rightarrow> Inl e | Inr x \<Rightarrow> f x)"

lemma bnd_simps [simp]:
  "bnd (Inl e) f = Inl e"
  "bnd (Inr x) f = f x"
  by (simp_all add: bnd_def)

lemma bnd_cong [fundef_cong]:
  "m = m' \<Longrightarrow> (\<And>x. m' = Inr x \<Longrightarrow> f x = f' x) \<Longrightarrow> bnd m f = bnd m' f'"
  by (cases m') (simp_all add: bnd_def)

lemma bnd_weak_cong [cong]: "m = m' \<Longrightarrow> bnd m f = bnd m' f"
  by simp

lemma bnd_eq_Inr: "bnd m f = Inr y \<longleftrightarrow> (\<exists>x. m = Inr x \<and> f x = Inr y)"
  by (cases m) simp_all

text \<open>
  The wire errors: what the spec calls CorruptStream (bad tag, truncated or garbage
  length, bad header, bad magic).
\<close>

fun corrupt_stream :: "error \<Rightarrow> bool" where
  "corrupt_stream BadCode = True"
| "corrupt_stream BadEncodedData = True"
| "corrupt_stream BadHeader = True"
| "corrupt_stream BadMagic = True"
| "corrupt_stream e = False"


subsection \<open>Tables\<close>

text \<open>
  Raw equality of keys (\<^verbatim>\<open>luaO_rawequalObj\<close>): numbers compare as doubles, so the two
  zeros are one key and a NaN equals nothing; everything else compares by content
  (strings, booleans) or identity (objects).
\<close>

definition is_nan :: "64 word \<Rightarrow> bool" where
  "is_nan d = (take_bit 11 (drop_bit 52 d) = (2047 :: 64 word) \<and> take_bit 52 d \<noteq> 0)"

definition num_eq :: "64 word \<Rightarrow> 64 word \<Rightarrow> bool" where
  "num_eq a b = (\<not> is_nan a \<and> \<not> is_nan b \<and> (a = b \<or> (take_bit 63 a = 0 \<and> take_bit 63 b = 0)))"

fun raw_equal :: "lval \<Rightarrow> lval \<Rightarrow> bool" where
  "raw_equal (LNum a) (LNum b) = num_eq a b"
| "raw_equal x y = (x = y)"

fun tab_get :: "(lval \<times> lval) list \<Rightarrow> lval \<Rightarrow> lval" where
  "tab_get [] k = LNil"
| "tab_get ((k', v') # ps) k = (if raw_equal k' k then v' else tab_get ps k)"

text \<open>
  A store keeps the position (and the key object) of a key that is present, appends a
  new key, and removes the pair when the value is nil.
\<close>

fun tab_put :: "(lval \<times> lval) list \<Rightarrow> lval \<Rightarrow> lval \<Rightarrow> (lval \<times> lval) list" where
  "tab_put [] k v = (if v = LNil then [] else [(k, v)])"
| "tab_put ((k', v') # ps) k v =
     (if raw_equal k' k then (if v = LNil then ps else (k', v) # ps)
      else (k', v') # tab_put ps k v)"

text \<open>
  \<^verbatim>\<open>(lua_Number)i\<close> for an index \<open>i < 2^53\<close>: the double that is the integer, its
  biased exponent above bit 52 and the fraction below.
\<close>

fun ilog2 :: "nat \<Rightarrow> nat" where
  "ilog2 n = (if n < 2 then 0 else Suc (ilog2 (n div 2)))"

declare ilog2.simps [simp del]

definition num_of_nat :: "nat \<Rightarrow> 64 word" where
  "num_of_nat n =
     (if n = 0 then 0
      else let e = ilog2 n in
        push_bit 52 (word_of_nat (e + 1023)) OR push_bit (52 - e) (word_of_nat (n - 2 ^ e)))"

text \<open>
  \<^verbatim>\<open>lua_objlen\<close> of a table: a border. The model counts up from 1, which is the border
  of a table without holes.
\<close>

fun border :: "(lval \<times> lval) list \<Rightarrow> nat \<Rightarrow> nat \<Rightarrow> nat" where
  "border ps i 0 = i"
| "border ps i (Suc n) =
     (if tab_get ps (LNum (num_of_nat (Suc i))) = LNil then i else border ps (Suc i) n)"

definition lua_objlen :: "(lval \<times> lval) list \<Rightarrow> nat" where
  "lua_objlen ps = border ps 0 (length ps)"

definition lua_newtable :: "heap \<Rightarrow> nat \<times> heap" where
  "lua_newtable hp = (length (tabs hp), hp\<lparr>tabs := tabs hp @ [\<lparr>tpairs = [], tpersist = None\<rparr>]\<rparr>)"

definition table_pairs :: "heap \<Rightarrow> nat \<Rightarrow> (lval \<times> lval) list" where
  "table_pairs hp t = (if t < length (tabs hp) then tpairs (tabs hp ! t) else [])"

text \<open>
  \<^verbatim>\<open>lua_settable\<close> into a table that has no metatable (the tables the decoder fills are
  its own fresh ones): the raw store, which raises on a nil or NaN key.
\<close>

definition lua_settable :: "heap \<Rightarrow> nat \<Rightarrow> lval \<Rightarrow> lval \<Rightarrow> heap res" where
  "lua_settable hp t k v =
     (if k = LNil then Inl TableIndexIsNil
      else if (case k of LNum d \<Rightarrow> is_nan d | _ \<Rightarrow> False) then Inl TableIndexIsNaN
      else Inr (hp\<lparr>tabs := (tabs hp)[t := (tabs hp ! t)\<lparr>tpairs := tab_put (table_pairs hp t) k v\<rparr>]\<rparr>))"

subsection \<open>The host\<close>

text \<open>
  Running Lua code and loading a chunk are services of the Lua runtime. \<open>h_call\<close> is
  \<^verbatim>\<open>lua_call\<close> with one result: the function value, its arguments, the heap before; an
  error or the result and the heap after. \<open>h_load\<close> is \<^verbatim>\<open>lua_load\<close> on the bytes its
  reader hands over: it pushes one value (the function, or the message when the chunk does
  not load; the file ignores the status). \<open>h_fresh n\<close> is what \<open>n\<close> bytes of memory hold
  that \<^verbatim>\<open>malloc\<close> or \<^verbatim>\<open>realloc\<close> handed out and nothing has written yet.
\<close>

record host =
  h_call :: "heap \<Rightarrow> lval \<Rightarrow> lval list \<Rightarrow> (lval \<times> heap) res"
  h_load :: "heap \<Rightarrow> byte list \<Rightarrow> lval \<times> heap"
  h_fresh :: "nat \<Rightarrow> byte list"

subsection \<open>Reading the stream\<close>

text \<open>
  The decoder works on a pointer \<^verbatim>\<open>buf\<close>, a length \<^verbatim>\<open>len\<close> and a cursor \<^verbatim>\<open>*p\<close>.
  \<open>mem\<close> is the memory the pointers point into, all of it that the caller owns; \<open>buf\<close>
  and \<open>p\<close> are offsets into it. A window \<open>[buf, buf+len)\<close> may claim more than \<open>mem\<close>
  holds; a read outside \<open>mem\<close> is \<open>Undefined\<close>.
\<close>

definition peek :: "byte list \<Rightarrow> nat \<Rightarrow> byte res" where
  "peek mem a = (if a < length mem then Inr (mem ! a) else Inl Undefined)"

definition peeks :: "byte list \<Rightarrow> nat \<Rightarrow> nat \<Rightarrow> byte list res" where
  "peeks mem a n =
     (if n = 0 then Inr []
      else if a + n \<le> length mem then Inr (take n (drop a mem))
      else Inl Undefined)"

definition mar_incr_ptr :: "nat \<Rightarrow> nat \<Rightarrow> nat \<Rightarrow> nat \<Rightarrow> nat res" where
  "mar_incr_ptr buf len p l = (if (p - buf) + l > len then Inl BadCode else Inr (p + l))"

definition mar_next_len :: "byte list \<Rightarrow> nat \<Rightarrow> nat \<Rightarrow> nat \<Rightarrow> (cint \<times> nat) res" where
  "mar_next_len mem buf len p =
     (if (p - buf) + 4 > len then Inl BadCode
      else bnd (peeks mem p 4) (\<lambda>bs. Inr (obj_value bs, p + 4)))"

text \<open>The decoder's Lua state: the reference table at stack index 2 and the heap.\<close>

record ustate =
  urefs :: "cint \<rightharpoonup> lval"
  uheap :: heap

definition ref_get :: "ustate \<Rightarrow> cint \<Rightarrow> lval" where
  "ref_get st r = (case urefs st r of None \<Rightarrow> LNil | Some v \<Rightarrow> v)"

definition ref_set :: "ustate \<Rightarrow> cint \<Rightarrow> lval \<Rightarrow> ustate" where
  "ref_set st i v = st\<lparr>urefs := (urefs st)(i := (if v = LNil then None else Some v))\<rparr>"

definition new_table :: "ustate \<Rightarrow> nat \<times> ustate" where
  "new_table st = (let (t, hp) = lua_newtable (uheap st) in (t, st\<lparr>uheap := hp\<rparr>))"

text \<open>
  \<^verbatim>\<open>lua_setupvalue\<close> stores into upvalue \<open>i\<close> of a function that has one. Otherwise it
  returns NULL and leaves the value on the stack; the file does not look at the result,
  the stack is off by one from there on, and the model stops at \<open>Undefined\<close>.
\<close>

definition lua_setupvalue :: "heap \<Rightarrow> lval \<Rightarrow> nat \<Rightarrow> lval \<Rightarrow> heap res" where
  "lua_setupvalue hp f i v =
     (case f of
        LFun a \<Rightarrow>
          if a < length (funs hp) \<and> 1 \<le> i \<and> i \<le> length (fupvals (funs hp ! a))
          then Inr (hp\<lparr>funs := (funs hp)[a := (funs hp ! a)\<lparr>fupvals := (fupvals (funs hp ! a))[i - 1 := v]\<rparr>]\<rparr>)
          else Inl Undefined
      | _ \<Rightarrow> Inl Undefined)"

fun set_upvalues :: "heap \<Rightarrow> lval \<Rightarrow> nat \<Rightarrow> nat \<Rightarrow> nat \<Rightarrow> heap res" where
  "set_upvalues hp f u i 0 = Inr hp"
| "set_upvalues hp f u i (Suc n) =
     bnd (lua_setupvalue hp f i (tab_get (table_pairs hp u) (LNum (num_of_nat i))))
       (\<lambda>hp. set_upvalues hp f u (Suc i) n)"

text \<open>
  The two branches of \<^verbatim>\<open>unpack_value\<close> that are the same code for a table and a
  userdata, after the nested \<^verbatim>\<open>mar_unpack\<close> has filled the wrapper \<open>w\<close>: fetch field 1,
  call it with no argument, register the result at \<^verbatim>\<open>(*idx)++\<close>.
\<close>

definition revive :: "host \<Rightarrow> ustate \<Rightarrow> nat \<Rightarrow> cint \<Rightarrow> (lval \<times> cint \<times> ustate) res" where
  "revive h st w idx =
     bnd (h_call h (uheap st) (tab_get (table_pairs (uheap st) w) (LNum (num_of_nat 1))) [])
       (\<lambda>(r, hp). Inr (r, idx + 1, ref_set (st\<lparr>uheap := hp\<rparr>) idx r))"

function unpack_value ::
    "host \<Rightarrow> byte list \<Rightarrow> nat \<Rightarrow> nat \<Rightarrow> nat \<Rightarrow> cint \<Rightarrow> ustate \<Rightarrow> (lval \<times> nat \<times> cint \<times> ustate) res"
  and mar_unpack ::
    "host \<Rightarrow> byte list \<Rightarrow> nat \<Rightarrow> nat \<Rightarrow> nat \<Rightarrow> cint \<Rightarrow> nat \<Rightarrow> ustate \<Rightarrow> ustate res"
where
  "unpack_value h mem buf len p idx st =
     bnd (peek mem p) (\<lambda>c. let val_type = (scast c :: cint) in
     bnd (mar_incr_ptr buf len p MAR_CHR) (\<lambda>p.
       if val_type = LUA_TBOOLEAN then
         bnd (peek mem p) (\<lambda>b.
         bnd (mar_incr_ptr buf len p MAR_CHR) (\<lambda>p. Inr (LBool (b \<noteq> 0), p, idx, st)))
       else if val_type = LUA_TNUMBER then
         bnd (peeks mem p 8) (\<lambda>bs.
         bnd (mar_incr_ptr buf len p MAR_I64) (\<lambda>p. Inr (LNum (obj_value bs), p, idx, st)))
       else if val_type = LUA_TSTRING then
         bnd (mar_next_len mem buf len p) (\<lambda>(l, p).
         bnd (peeks mem p (unat l)) (\<lambda>bs.
         bnd (mar_incr_ptr buf len p (unat l)) (\<lambda>p. Inr (LStr bs, p, idx, st))))
       else if val_type = LUA_TTABLE then
         bnd (peek mem p) (\<lambda>c. let tag = (scast c :: cint) in
         bnd (mar_incr_ptr buf len p MAR_CHR) (\<lambda>p.
           if tag = MAR_TREF then
             bnd (mar_next_len mem buf len p) (\<lambda>(ref, p). Inr (ref_get st ref, p, idx, st))
           else if tag = MAR_TVAL then
             bnd (mar_next_len mem buf len p) (\<lambda>(l, p).
             let (t, st) = new_table st; st = ref_set st idx (LTab t); idx = idx + 1 in
             bnd (mar_unpack h mem p (unat l) p idx t st) (\<lambda>st.
             bnd (mar_incr_ptr buf len p (unat l)) (\<lambda>p. Inr (LTab t, p, idx, st))))
           else if tag = MAR_TUSR then
             bnd (mar_next_len mem buf len p) (\<lambda>(l, p).
             let (w, st) = new_table st in
             bnd (mar_unpack h mem p (unat l) p idx w st) (\<lambda>st.
             bnd (revive h st w idx) (\<lambda>(r, idx, st).
             bnd (mar_incr_ptr buf len p (unat l)) (\<lambda>p. Inr (r, p, idx, st)))))
           else Inl BadEncodedData))
       else if val_type = LUA_TFUNCTION then
         bnd (peek mem p) (\<lambda>c. let tag = (scast c :: cint) in
         bnd (mar_incr_ptr buf len p 1) (\<lambda>p.
           if tag = MAR_TREF then
             bnd (mar_next_len mem buf len p) (\<lambda>(ref, p). Inr (ref_get st ref, p, idx, st))
           else
             bnd (mar_next_len mem buf len p) (\<lambda>(l, p).
             bnd (peeks mem p (unat l)) (\<lambda>chunk.
             let (f, hp) = h_load h (uheap st) chunk in
             bnd (mar_incr_ptr buf len p (unat l)) (\<lambda>p.
             let st = ref_set (st\<lparr>uheap := hp\<rparr>) idx f; idx = idx + 1 in
             bnd (mar_next_len mem buf len p) (\<lambda>(l, p).
             let (u, st) = new_table st in
             bnd (mar_unpack h mem p (unat l) p idx u st) (\<lambda>st.
             bnd (set_upvalues (uheap st) f u 1 (lua_objlen (table_pairs (uheap st) u))) (\<lambda>hp.
             bnd (mar_incr_ptr buf len p (unat l)) (\<lambda>p.
               Inr (f, p, idx, st\<lparr>uheap := hp\<rparr>))))))))))
       else if val_type = LUA_TUSERDATA then
         bnd (peek mem p) (\<lambda>c. let tag = (scast c :: cint) in
         bnd (mar_incr_ptr buf len p MAR_CHR) (\<lambda>p.
           if tag = MAR_TREF then
             bnd (mar_next_len mem buf len p) (\<lambda>(ref, p). Inr (ref_get st ref, p, idx, st))
           else if tag = MAR_TUSR then
             bnd (mar_next_len mem buf len p) (\<lambda>(l, p).
             let (w, st) = new_table st in
             bnd (mar_unpack h mem p (unat l) p idx w st) (\<lambda>st.
             bnd (revive h st w idx) (\<lambda>(r, idx, st).
             bnd (mar_incr_ptr buf len p (unat l)) (\<lambda>p. Inr (r, p, idx, st)))))
           else Inr (LNil, p, idx, st)))
       else if val_type = LUA_TTHREAD then Inr (LNil, p, idx, st)
       else Inl BadCode))"
| "mar_unpack h mem buf len p idx t st =
     (if p - buf < len then
        bnd (unpack_value h mem buf len p idx st) (\<lambda>(k, p1, idx1, st1).
        bnd (unpack_value h mem buf len p1 idx1 st1) (\<lambda>(v, p2, idx2, st2).
        bnd (lua_settable (uheap st2) t k v) (\<lambda>hp.
          mar_unpack h mem buf len p2 idx2 t (st2\<lparr>uheap := hp\<rparr>))))
      else Inr st)"
  by pat_completeness auto


text \<open>
  Termination: a call of \<^verbatim>\<open>unpack_value\<close> that returns has read the byte at \<open>p\<close> and
  moved the cursor forward, whatever the nested windows claim.
\<close>

lemma mar_incr_ptr_Inr:
  "mar_incr_ptr buf len p l = Inr p' \<Longrightarrow> p' = p + l \<and> (p - buf) + l \<le> len"
  by (auto simp: mar_incr_ptr_def split: if_splits)

lemma mar_next_len_Inr:
  "mar_next_len mem buf len p = Inr x \<Longrightarrow>
     snd x = p + 4 \<and> (p - buf) + 4 \<le> len \<and> p + 4 \<le> length mem"
  by (auto simp: mar_next_len_def peeks_def bnd_eq_Inr split: if_splits)

lemma peek_Inr: "peek mem p = Inr c \<Longrightarrow> p < length mem"
  by (auto simp: peek_def split: if_splits)

lemma unpack_value_progress:
  assumes "unpack_value_mar_unpack_dom (Inl (h, mem, buf, len, p, idx, st))"
    and "unpack_value h mem buf len p idx st = Inr x"
  shows "p < fst (snd x) \<and> p < length mem"
  using assms(2) unfolding unpack_value.psimps [OF assms(1)]
  by (auto simp: bnd_eq_Inr Let_def revive_def case_prod_beta split: if_splits
      dest!: mar_incr_ptr_Inr mar_next_len_Inr peek_Inr)

termination unpack_value
  apply (relation "measure (case_sum
      (\<lambda>(h, mem, buf, len, p, idx, st). 2 * (length mem - p) + 1)
      (\<lambda>(h, mem, buf, len, p, idx, t, st). 2 * (length mem - p) + 2))")
   apply simp
  apply (auto simp: bnd_eq_Inr
      dest!: mar_incr_ptr_Inr mar_next_len_Inr peek_Inr unpack_value_progress)
  done

declare unpack_value.simps [simp del] mar_unpack.simps [simp del]

subsection \<open>tbl_unmarshal\<close>

text \<open>
  The loop \<^verbatim>\<open>for (i=0, j=n-1, n=n/2; n--; i++, j--)\<close> that swaps \<^verbatim>\<open>p[i]\<close> and
  \<^verbatim>\<open>p[j]\<close>, for \<open>n\<close> iterations.
\<close>

fun swap_loop :: "byte list \<Rightarrow> nat \<Rightarrow> nat \<Rightarrow> nat \<Rightarrow> byte list" where
  "swap_loop p i j 0 = p"
| "swap_loop p i j (Suc n) = swap_loop (p[i := p ! j, j := p ! i]) (Suc i) (j - 1) n"

text \<open>
  \<^verbatim>\<open>int n = l\<close> keeps the low 32 bits of the length, read as signed. With \<open>0 \<le> n\<close>
  the loop runs \<open>n / 2\<close> times inside the buffer. With \<open>n < 0\<close> the quotient \<open>n / 2\<close>
  (C truncates towards zero) is 0 only for \<open>n = -1\<close>, where the loop does not run; for
  every other negative \<open>n\<close> the first iteration indexes \<^verbatim>\<open>p[j]\<close> with \<open>j = n - 1 < 0\<close>
  (for the least \<^verbatim>\<open>int\<close> the subtraction itself overflows).
\<close>

definition reverse_bytes :: "byte list \<Rightarrow> nat \<Rightarrow> byte list res" where
  "reverse_bytes p l =
     (let n = sint (word_of_nat l :: cint) in
      if 0 \<le> n then Inr (swap_loop p 0 (nat n - 1) (nat n div 2))
      else if n = - 1 then Inr p
      else Inl Undefined)"

definition buf_write :: "byte list \<Rightarrow> nat \<Rightarrow> byte list \<Rightarrow> byte list res" where
  "buf_write str len buf =
     (if len > UINT32_MAX then Inl BufferTooLong else Inr (buf @ take len str))"

text \<open>
  The size of a buffer after \<^verbatim>\<open>buf_init\<close> and one \<^verbatim>\<open>buf_write\<close> of \<open>len\<close> bytes: the
  128 bytes it starts with, or, when they do not hold \<open>len\<close> bytes, 256 doubled while
  \<^verbatim>\<open>new_size - cur_head <= len\<close> (\<^verbatim>\<open>cur_head\<close> is 0 here). Sizes are
  \<^verbatim>\<open>size_t\<close> and \<open>len\<close> is at most \<^verbatim>\<open>UINT32_MAX\<close>, so the doubling does not wrap; the
  test \<open>0 < new_size\<close> is there for the recursion to be total and is true throughout.
\<close>

function grow_size :: "nat \<Rightarrow> nat \<Rightarrow> nat" where
  "grow_size new_size len =
     (if 0 < new_size \<and> new_size \<le> len then grow_size (new_size * 2) len else new_size)"
  by pat_completeness auto

termination grow_size
  by (relation "measure (\<lambda>(new_size, len). Suc len - new_size)") auto

declare grow_size.simps [simp del]

definition buffer_size :: "nat \<Rightarrow> nat" where
  "buffer_size len = (if 128 < len then grow_size 256 len else 128)"

text \<open>\<^verbatim>\<open>*(char* )&x\<close> for \<^verbatim>\<open>int x = 1\<close>: the first byte of the object.\<close>

definition host_marker :: byte where
  "host_marker = hd (int_obj 1)"

text \<open>
  The argument is the string \<^verbatim>\<open>luaL_checklstring\<close> returns. In the branch that decodes
  in place, the memory behind the pointer is the string and the zero byte Lua keeps after
  every string; in the other branch it is the buffer of the copy: the \<open>l\<close> bytes
  written, reversed in place, and the rest of the buffer, which nothing has written.
  The two fresh tables are the reference table (stack index 2; the model keeps its
  entries in \<open>urefs\<close>) and the result.
\<close>

definition tbl_unmarshal :: "host \<Rightarrow> heap \<Rightarrow> byte list \<Rightarrow> (lval \<times> heap) res" where
  "tbl_unmarshal h hp s =
     (if length s < 2 then Inl BadHeader
      else if s ! 0 \<noteq> MAR_MAGIC then Inl BadMagic
      else
        let l = length s - 2;
            (r, hp) = lua_newtable hp;
            (t, hp) = lua_newtable hp;
            st = \<lparr>urefs = Map.empty, uheap = hp\<rparr>
        in
          if host_marker \<noteq> s ! 1 then
            bnd (buf_write (drop 2 s) l []) (\<lambda>data.
            bnd (reverse_bytes data l) (\<lambda>data.
            bnd (mar_unpack h (data @ h_fresh h (buffer_size l - l)) 0 l 0 1 t st)
              (\<lambda>st. Inr (LTab t, uheap st))))
          else
            bnd (mar_unpack h (s @ [0]) 2 l 2 1 t st) (\<lambda>st. Inr (LTab t, uheap st)))"

subsection \<open>The encoder\<close>

text \<open>
  The packer's Lua state: the table at stack index 2, which maps an object to its id,
  and the heap. A \<^verbatim>\<open>mar_Buffer\<close> is the bytes written so far (\<^verbatim>\<open>head\<close> is their number);
  a failing \<^verbatim>\<open>malloc\<close> is not modelled.
\<close>

record pstate =
  prefs :: "lval \<rightharpoonup> cint"
  pheap :: heap

definition luaL_getmetafield :: "heap \<Rightarrow> lval \<Rightarrow> lval option" where
  "luaL_getmetafield hp v =
     (case v of
        LTab a \<Rightarrow> (if a < length (tabs hp) then tpersist (tabs hp ! a) else None)
      | LUsr a \<Rightarrow> (if a < length (usrs hp) then usrs hp ! a else None)
      | _ \<Rightarrow> None)"

definition write_ref :: "cint \<Rightarrow> byte list \<Rightarrow> byte list res" where
  "write_ref ref buf =
     bnd (buf_write (int_obj MAR_TREF) MAR_CHR buf) (\<lambda>buf.
     buf_write (int_obj ref) MAR_I32 buf)"

definition write_rec :: "byte list \<Rightarrow> byte list \<Rightarrow> byte list res" where
  "write_rec rec_packed buf =
     bnd (buf_write (size_t_obj (length rec_packed)) MAR_I32 buf) (\<lambda>buf.
     buf_write rec_packed (length rec_packed) buf)"

text \<open>
  The table the loop \<^verbatim>\<open>for (i=1; i <= ar.nups; i++)\<close> fills with \<^verbatim>\<open>lua_rawseti\<close>,
  starting at index \<open>i\<close>: a nil upvalue leaves no pair. \<^verbatim>\<open>lua_next\<close> visits such a
  table in the order of the indices.
\<close>

fun upvalue_pairs_from :: "nat \<Rightarrow> lval list \<Rightarrow> (lval \<times> lval) list" where
  "upvalue_pairs_from i [] = []"
| "upvalue_pairs_from i (u # us) =
     (if u = LNil then [] else [(LNum (num_of_nat i), u)]) @ upvalue_pairs_from (Suc i) us"

definition upvalue_pairs :: "lval list \<Rightarrow> (lval \<times> lval) list" where
  "upvalue_pairs ups = upvalue_pairs_from 1 ups"

text \<open>
  The upvalues the loop reads. \<^verbatim>\<open>pack_value\<close> is called with the key and the value of
  a pair on the stack, the value on top. After \<^verbatim>\<open>lua_newtable\<close> the call
  \<^verbatim>\<open>lua_getupvalue(L, -2, i)\<close> addresses what was the top of the stack, for \<open>i\<close> up to the
  number of upvalues of the function being packed: its own upvalues when the function is
  the value of the pair, those of the value when it is the key. Where the top of the stack
  is no function, or has fewer upvalues, \<^verbatim>\<open>lua_getupvalue\<close> pushes nothing, the
  \<^verbatim>\<open>lua_rawseti\<close> that follows pops the new table instead, and the stack is off from
  there on.
\<close>

definition lua_getupvalues :: "heap \<Rightarrow> lval \<Rightarrow> nat \<Rightarrow> lval list res" where
  "lua_getupvalues hp tp nups =
     (if nups = 0 then Inr []
      else case tp of
        LFun b \<Rightarrow>
          if b < length (funs hp) \<and> nups \<le> length (fupvals (funs hp ! b))
          then Inr (take nups (fupvals (funs hp ! b)))
          else Inl Undefined
      | _ \<Rightarrow> Inl Undefined)"

text \<open>
  \<^verbatim>\<open>mar_pack\<close> walks the table on top of the stack; the model hands it the pairs of that
  table in \<^verbatim>\<open>lua_next\<close> order. \<open>pack_value n h v tp\<close> packs \<open>v\<close>, the value at the stack
  index \<^verbatim>\<open>val\<close>, with \<open>tp\<close> the value on top of the stack (the value of the pair).
  The counter is an \<^verbatim>\<open>int\<close> passed by value to \<^verbatim>\<open>mar_pack\<close> and by pointer to
  \<^verbatim>\<open>pack_value\<close>. A persist hook is Lua code that may build new objects, so the
  traversal need not end: the fuel bounds the nesting depth.
\<close>

function (sequential) pack_value ::
    "nat \<Rightarrow> host \<Rightarrow> lval \<Rightarrow> lval \<Rightarrow> byte list \<Rightarrow> cint \<Rightarrow> pstate \<Rightarrow> (byte list \<times> cint \<times> pstate) res"
  and pack_persist ::
    "nat \<Rightarrow> host \<Rightarrow> lval \<Rightarrow> lval \<Rightarrow> byte list \<Rightarrow> cint \<Rightarrow> pstate \<Rightarrow> (byte list \<times> cint \<times> pstate) res"
  and mar_pack ::
    "nat \<Rightarrow> host \<Rightarrow> (lval \<times> lval) list \<Rightarrow> byte list \<Rightarrow> cint \<Rightarrow> pstate \<Rightarrow> (byte list \<times> pstate) res"
where
  "pack_value 0 h v tp buf idx st = Inl OutOfFuel"
| "pack_value (Suc n) h v tp buf idx st =
     bnd (buf_write (int_obj (lua_type v)) MAR_CHR buf) (\<lambda>buf.
       case v of
         LBool b \<Rightarrow>
           bnd (buf_write (int_obj (if b then 1 else 0)) MAR_CHR buf) (\<lambda>buf. Inr (buf, idx, st))
       | LStr s \<Rightarrow>
           bnd (buf_write (size_t_obj (length s)) MAR_I32 buf) (\<lambda>buf.
           bnd (buf_write s (length s) buf) (\<lambda>buf. Inr (buf, idx, st)))
       | LNum d \<Rightarrow>
           bnd (buf_write (double_obj d) MAR_I64 buf) (\<lambda>buf. Inr (buf, idx, st))
       | LTab a \<Rightarrow>
           (case prefs st v of
              Some ref \<Rightarrow> bnd (write_ref ref buf) (\<lambda>buf. Inr (buf, idx, st))
            | None \<Rightarrow>
                (case luaL_getmetafield (pheap st) v of
                   Some hook \<Rightarrow> pack_persist n h hook v buf idx st
                 | None \<Rightarrow>
                     let st = st\<lparr>prefs := (prefs st)(v \<mapsto> idx)\<rparr>; idx = idx + 1 in
                     bnd (mar_pack n h (table_pairs (pheap st) a) [] idx st) (\<lambda>(rec_packed, st).
                     bnd (buf_write (int_obj MAR_TVAL) MAR_CHR buf) (\<lambda>buf.
                     bnd (write_rec rec_packed buf) (\<lambda>buf. Inr (buf, idx, st))))))
       | LFun a \<Rightarrow>
           (case prefs st v of
              Some ref \<Rightarrow> bnd (write_ref ref buf) (\<lambda>buf. Inr (buf, idx, st))
            | None \<Rightarrow>
                if a < length (funs (pheap st)) then
                  let st = st\<lparr>prefs := (prefs st)(v \<mapsto> idx)\<rparr>; idx = idx + 1;
                      f = funs (pheap st) ! a in
                  bnd (buf_write (int_obj MAR_TVAL) MAR_CHR buf) (\<lambda>buf.
                  bnd (write_rec (fdump f) buf) (\<lambda>buf.
                  if fwhat f \<noteq> WhatLua then Inl PersistCFunction
                  else
                    bnd (lua_getupvalues (pheap st) tp (length (fupvals f))) (\<lambda>ups.
                    bnd (mar_pack n h (upvalue_pairs ups) [] idx st) (\<lambda>(rec_packed, st).
                    bnd (write_rec rec_packed buf) (\<lambda>buf. Inr (buf, idx, st))))))
                else Inl Undefined)
       | LUsr a \<Rightarrow>
           (case prefs st v of
              Some ref \<Rightarrow> bnd (write_ref ref buf) (\<lambda>buf. Inr (buf, idx, st))
            | None \<Rightarrow>
                (case luaL_getmetafield (pheap st) v of
                   Some hook \<Rightarrow> pack_persist n h hook v buf idx st
                 | None \<Rightarrow>
                     bnd (buf_write (int_obj MAR_TVAL) MAR_CHR buf) (\<lambda>buf. Inr (buf, idx, st))))
       | LThread a \<Rightarrow> Inr (buf, idx, st)
       | _ \<Rightarrow> Inl InvalidValueType)"
| "pack_persist n h hook v buf idx st =
     (let st = st\<lparr>prefs := (prefs st)(v \<mapsto> idx)\<rparr>; idx = idx + 1 in
      bnd (h_call h (pheap st) hook [v]) (\<lambda>(r, hp).
      if lua_type r \<noteq> LUA_TFUNCTION then Inl PersistMustReturnFunction
      else
        bnd (mar_pack n h [(LNum (num_of_nat 1), r)] [] idx (st\<lparr>pheap := hp\<rparr>)) (\<lambda>(rec_packed, st).
        bnd (buf_write (int_obj MAR_TUSR) MAR_CHR buf) (\<lambda>buf.
        bnd (write_rec rec_packed buf) (\<lambda>buf. Inr (buf, idx, st))))))"
| "mar_pack n h [] buf idx st = Inr (buf, st)"
| "mar_pack n h ((k, v) # ps) buf idx st =
     bnd (pack_value n h k v buf idx st) (\<lambda>(buf, idx, st).
     bnd (pack_value n h v v buf idx st) (\<lambda>(buf, idx, st).
     mar_pack n h ps buf idx st))"
  by pat_completeness auto

termination
  by (relation "inv_image (less_than <*lex*> less_than)
       (\<lambda>x. case x of
           Inl (n, h, v, tp, buf, idx, st) \<Rightarrow> (3 * n, 0)
         | Inr (Inl (n, h, hook, v, buf, idx, st)) \<Rightarrow> (3 * n + 2, 0)
         | Inr (Inr (n, h, ps, buf, idx, st)) \<Rightarrow> (3 * n + 1, length ps))") auto

text \<open>
  \<^verbatim>\<open>tbl_marshal\<close> checks nothing about its argument: \<^verbatim>\<open>mar_pack\<close> starts \<^verbatim>\<open>lua_next\<close>
  on it, which the Lua API defines for a table only.
\<close>

definition lua_next_pairs :: "heap \<Rightarrow> lval \<Rightarrow> (lval \<times> lval) list res" where
  "lua_next_pairs hp v = (case v of LTab a \<Rightarrow> Inr (table_pairs hp a) | _ \<Rightarrow> Inl Undefined)"

definition tbl_marshal :: "nat \<Rightarrow> host \<Rightarrow> heap \<Rightarrow> lval \<Rightarrow> (byte list \<times> heap) res" where
  "tbl_marshal n h hp root =
     bnd (buf_write [MAR_MAGIC] 1 []) (\<lambda>buf.
     bnd (buf_write [host_marker] 1 buf) (\<lambda>buf.
     bnd (lua_next_pairs hp root) (\<lambda>ps.
     bnd (mar_pack n h ps buf 1 \<lparr>prefs = Map.empty, pheap = hp\<rparr>) (\<lambda>(buf, st).
       Inr (buf, pheap st)))))"

text \<open>
  \<^verbatim>\<open>tbl_clone\<close> runs the two on one stack. The decoder then finds the packer's table at
  index 2; its keys are objects, the decoder's are integers, so the decoder sees an
  empty reference table there too.
\<close>

definition tbl_clone :: "nat \<Rightarrow> host \<Rightarrow> heap \<Rightarrow> lval \<Rightarrow> (lval \<times> heap) res" where
  "tbl_clone n h hp root = bnd (tbl_marshal n h hp root) (\<lambda>(s, hp). tbl_unmarshal h hp s)"

section \<open>Running the model\<close>

text \<open>
  The rules that evaluate the model on a concrete input inside the simplifier. The
  congruence rule of \<open>bnd\<close> makes it evaluate the first action before it looks at the
  continuation, so the recursive equations of the decoder unfold along the run only.
\<close>

lemma int_obj_bytes:
  "int_obj w = [ucast w, ucast (drop_bit 8 w), ucast (drop_bit 16 w), ucast (drop_bit 24 w)]"
  by (simp add: int_obj_def numeral_eq_Suc)

lemma obj_bytes_8:
  "obj_bytes 8 w =
     [ucast w, ucast (drop_bit 8 w), ucast (drop_bit 16 w), ucast (drop_bit 24 w),
      ucast (drop_bit 32 w), ucast (drop_bit 40 w), ucast (drop_bit 48 w), ucast (drop_bit 56 w)]"
  by (simp add: numeral_eq_Suc)

lemma host_marker_1: "host_marker = 1"
  by (simp add: host_marker_def int_obj_bytes)

lemma num_of_nat_values:
  "num_of_nat 0 = 0"
  "num_of_nat 1 = 0x3FF0000000000000"
  "num_of_nat (Suc 0) = 0x3FF0000000000000"
  "num_of_nat 2 = 0x4000000000000000"
  "num_of_nat (Suc (Suc 0)) = 0x4000000000000000"
  "num_of_nat 3 = 0x4008000000000000"
  "num_of_nat 4 = 0x4010000000000000"
  by (simp_all add: num_of_nat_def ilog2.simps)

lemmas mar_eval =
  int_obj_bytes obj_bytes_8 host_marker_1 size_t_obj_def double_obj_def
  tbl_marshal_def tbl_unmarshal_def tbl_clone_def buf_write_def lua_next_pairs_def
  table_pairs_def write_ref_def write_rec_def luaL_getmetafield_def upvalue_pairs_def
  Let_def lua_newtable_def mar_unpack.simps unpack_value.simps peek_def peeks_def
  mar_incr_ptr_def mar_next_len_def new_table_def ref_get_def ref_set_def lua_settable_def
  num_of_nat_values is_nan_def num_eq_def revive_def lua_objlen_def
  lua_setupvalue_def reverse_bytes_def lua_getupvalues_def

text \<open>\<open>field hp v k\<close> is \<^verbatim>\<open>v[k]\<close> (a raw get); \<open>nkey i\<close> is the number \<open>i\<close> as a key.\<close>

definition field :: "heap \<Rightarrow> lval \<Rightarrow> lval \<Rightarrow> lval" where
  "field hp v k = (case v of LTab a \<Rightarrow> tab_get (table_pairs hp a) k | _ \<Rightarrow> LNil)"

definition nkey :: "nat \<Rightarrow> lval" where
  "nkey i = LNum (num_of_nat i)"

definition plain :: "(lval \<times> lval) list \<Rightarrow> ltable" where
  "plain ps = \<lparr>tpairs = ps, tpersist = None\<rparr>"

definition empty_heap :: heap where
  "empty_heap = \<lparr>tabs = [], funs = [], usrs = []\<rparr>"

subsection \<open>Facts about the byte images and the reads\<close>

lemma obj_value_obj_bytes:
  "(obj_value (obj_bytes n (w :: 'a::len word)) :: 'b::len word) = ucast (take_bit (8 * n) w)"
proof (induction n arbitrary: w)
  case 0
  show ?case by simp
next
  case (Suc n)
  show ?case
    unfolding obj_bytes.simps obj_value.simps Suc
    by (rule bit_word_eqI) (auto simp: bit_simps)
qed

lemma take_obj_bytes: "take m (obj_bytes n w) = obj_bytes (min m n) w"
proof (induction n arbitrary: m w)
  case 0
  show ?case by simp
next
  case (Suc n)
  show ?case by (cases m) (simp_all add: Suc)
qed

lemma length_obj_bytes [simp]: "length (obj_bytes n w) = n"
  by (induction n arbitrary: w) simp_all

lemma obj_value_int_obj: "(obj_value (int_obj w) :: cint) = w"
  by (simp add: int_obj_def obj_value_obj_bytes take_bit_word_eq_self)

lemma length_int_obj: "length (int_obj w) = 4"
  by (simp add: int_obj_bytes)

lemma peek_append: "peek (pre @ x # xs) (length pre) = Inr x"
  by (simp add: peek_def)

lemma peek_append_Suc: "peek (pre @ x # y # xs) (Suc (length pre)) = Inr y"
  by (simp add: peek_def nth_append)

lemma mar_next_len_append:
  "buf \<le> length pre \<Longrightarrow> (length pre - buf) + 6 \<le> len \<Longrightarrow>
   mar_next_len (pre @ x # y # int_obj w @ post) buf len (Suc (Suc (length pre))) = Inr (w, length pre + 6)"
  by (simp add: mar_next_len_def peeks_def length_int_obj obj_value_int_obj)

lemma obj_value_double_obj: "(obj_value (double_obj d) :: 64 word) = d"
  by (simp add: double_obj_def obj_value_obj_bytes take_bit_word_eq_self)

lemma buf_write_take1_int:
  "buf_write (int_obj w) 1 out = Inr (out @ [ucast w])"
  "buf_write (int_obj w) (Suc 0) out = Inr (out @ [ucast w])"
  by (simp_all add: buf_write_def int_obj_bytes)

lemma write_rec_ok:
  "length body \<le> 4294967295 \<Longrightarrow>
   write_rec body out = Inr (out @ take 4 (size_t_obj (length body)) @ body)"
  by (simp add: write_rec_def buf_write_def)

subsection \<open>Hosts and states for the examples\<close>

text \<open>
  \<open>no_host\<close> is a runtime in which every call fails and no chunk loads. \<open>demo_host\<close> is a
  small runtime with functions: calling a C function returns function 1 (a persist hook
  that hands out its reviver), calling a Lua function returns the number of arguments it
  was called with, and loading a chunk makes a new Lua function whose number of upvalues
  is the first byte of the chunk. Fresh memory holds zeros in both.
\<close>

definition no_host :: host where
  "no_host =
     \<lparr>h_call = (\<lambda>hp f args. Inl HostError), h_load = (\<lambda>hp chunk. (LNil, hp)),
      h_fresh = (\<lambda>n. replicate n 0)\<rparr>"

definition start_state :: ustate where
  "start_state = \<lparr>urefs = Map.empty, uheap = empty_heap\<rparr>"

definition demo_host :: host where
  "demo_host =
     \<lparr>h_call = (\<lambda>hp f args.
        case f of
          LFun a \<Rightarrow>
            if a < length (funs hp) then
              (if fwhat (funs hp ! a) = WhatC then Inr (LFun 1, hp)
               else Inr (LNum (num_of_nat (length args)), hp))
            else Inl HostError
        | _ \<Rightarrow> Inl HostError),
      h_load = (\<lambda>hp chunk.
        (LFun (length (funs hp)),
         hp\<lparr>funs := funs hp @
           [\<lparr>fwhat = WhatLua, fdump = chunk,
             fupvals = replicate (case chunk of [] \<Rightarrow> 0 | b # bs \<Rightarrow> unat b) LNil\<rparr>]\<rparr>)),
      h_fresh = (\<lambda>n. replicate n 0)\<rparr>"

section \<open>Round trip and identity (C1, C2)\<close>

text \<open>
  The Lua value \<^verbatim>\<open>{ {X}, {"y"}, X }\<close> with \<^verbatim>\<open>X = {"x"}\<close>: table 0 is the root, table 1
  is \<^verbatim>\<open>{X}\<close>, table 2 is \<^verbatim>\<open>X\<close>, table 3 is \<^verbatim>\<open>{"y"}\<close>. A table built by a constructor is
  traversed by \<^verbatim>\<open>lua_next\<close> in the order 1, 2, 3.
\<close>

definition shared_heap :: heap where
  "shared_heap =
     \<lparr>tabs = [plain [(nkey 1, LTab 1), (nkey 2, LTab 3), (nkey 3, LTab 2)],
              plain [(nkey 1, LTab 2)],
              plain [(nkey 1, LStr [0x78])],
              plain [(nkey 1, LStr [0x79])]],
      funs = [], usrs = []\<rparr>"

text \<open>
  C1 (the round trip of a value built from scalars and tables is deep-equal to the value)
  fails on this input. \<^verbatim>\<open>mar_pack\<close> and \<^verbatim>\<open>mar_unpack\<close> take the counter by value, so the
  ids given inside table 1 are given again after it: \<^verbatim>\<open>X\<close> and \<^verbatim>\<open>{"y"}\<close> both get id 2.
  The third field is written as a reference to id 2 and decodes to the copy of
  \<^verbatim>\<open>{"y"}\<close>: in the original \<^verbatim>\<open>root[3][1]\<close> is \<^verbatim>\<open>"x"\<close>, in the clone it is \<^verbatim>\<open>"y"\<close>.
\<close>

theorem clone_confuses_shared_tables:
  "field shared_heap (field shared_heap (LTab 0) (nkey 3)) (nkey 1) = LStr [0x78] \<and>
   (case tbl_clone (Suc (Suc (Suc 0))) h shared_heap (LTab 0) of
      Inl e \<Rightarrow> False
    | Inr (c, hp) \<Rightarrow> field hp (field hp c (nkey 3)) (nkey 1) = LStr [0x79])"
  by (simp add: mar_eval field_def nkey_def plain_def shared_heap_def)

text \<open>
  The Lua value \<^verbatim>\<open>C\<close> with \<^verbatim>\<open>C.x = C\<close> (table 0), and the value
  \<^verbatim>\<open>{ {X}, X, {"y"}, X }\<close> with \<^verbatim>\<open>X = {"x"}\<close> (root 0, \<^verbatim>\<open>{X}\<close> 1, \<^verbatim>\<open>X\<close> 2, \<^verbatim>\<open>{"y"}\<close> 3).
\<close>

definition cyclic_heap :: heap where
  "cyclic_heap = \<lparr>tabs = [plain [(LStr [0x78], LTab 0)]], funs = [], usrs = []\<rparr>"

definition twice_heap :: heap where
  "twice_heap =
     \<lparr>tabs = [plain [(nkey 1, LTab 1), (nkey 2, LTab 2), (nkey 3, LTab 3), (nkey 4, LTab 2)],
              plain [(nkey 1, LTab 2)],
              plain [(nkey 1, LStr [0x78])],
              plain [(nkey 1, LStr [0x79])]],
      funs = [], usrs = []\<rparr>"

text \<open>
  C2 (clone keeps identity: \<^verbatim>\<open>clone(C).x\<close> is \<^verbatim>\<open>clone(C)\<close> when \<^verbatim>\<open>C.x = C\<close>, and two fields
  that point at one table point at one table in the clone) fails on both inputs. The root
  is never entered into the reference table, on either side, so the first reference to
  it from inside is packed as a new table: the clone of \<^verbatim>\<open>C\<close> is a table whose \<^verbatim>\<open>x\<close> is a
  second table (which is its own \<^verbatim>\<open>x\<close>). In the second value fields 2 and 4 are the same
  table; id 2 is given to \<^verbatim>\<open>X\<close> inside table 1 and again to \<^verbatim>\<open>{"y"}\<close>, so field 2 of the
  clone is the copy of \<^verbatim>\<open>X\<close> and field 4 is the copy of \<^verbatim>\<open>{"y"}\<close>.
\<close>

theorem clone_loses_identity:
  "field cyclic_heap (LTab 0) (LStr [0x78]) = LTab 0 \<and>
   (case tbl_clone (Suc (Suc (Suc 0))) h cyclic_heap (LTab 0) of
      Inl e \<Rightarrow> False
    | Inr (c, hp) \<Rightarrow> field hp c (LStr [0x78]) \<noteq> c
        \<and> field hp (field hp c (LStr [0x78])) (LStr [0x78]) = field hp c (LStr [0x78])) \<and>
   field twice_heap (LTab 0) (nkey 2) = field twice_heap (LTab 0) (nkey 4) \<and>
   (case tbl_clone (Suc (Suc (Suc 0))) h twice_heap (LTab 0) of
      Inl e \<Rightarrow> False
    | Inr (c, hp) \<Rightarrow> field hp c (nkey 2) \<noteq> field hp c (nkey 4)
        \<and> field hp (field hp c (nkey 2)) (nkey 1) = LStr [0x78]
        \<and> field hp (field hp c (nkey 4)) (nkey 1) = LStr [0x79])"
  by (simp add: mar_eval field_def nkey_def plain_def cyclic_heap_def twice_heap_def)

section \<open>Reads and bounds (C3)\<close>

text \<open>
  C3 (every length is checked against the rest of the buffer before it is used, and no
  byte outside the buffer is read) fails: \<^verbatim>\<open>unpack_value\<close> reads first and calls
  \<^verbatim>\<open>mar_incr_ptr\<close> afterwards. The 7-byte string below is a header and a string record
  that claims 16 bytes and has none. \<^verbatim>\<open>mar_next_len\<close> accepts the length field,
  \<^verbatim>\<open>lua_pushlstring(L, *p, l)\<close> then copies 16 bytes that start at the end of the
  argument, and only then \<^verbatim>\<open>mar_incr_ptr(l)\<close> would raise. The second input ends
  after the type byte of a boolean: the value byte is read one past the window before the
  check raises (the byte there is the zero Lua keeps behind a string, so this read has a
  value and the run ends in the error).
\<close>

theorem unpack_reads_before_checking:
  "tbl_unmarshal h hp [0x8e, 1, 4, 16, 0, 0, 0] = Inl Undefined \<and>
   peeks ([0x8e, 1, 4, 16, 0, 0, 0] @ [0]) 7 16 = Inl Undefined \<and>
   mar_incr_ptr 2 5 7 16 = Inl BadCode \<and>
   peek ([0x8e, 1, 1] @ [0]) 3 = Inr 0 \<and>
   tbl_unmarshal h hp [0x8e, 1, 1] = Inl BadCode"
  by (simp add: mar_eval)

section \<open>The root of tbl_marshal (C10)\<close>

text \<open>
  C10 (marshal raises an error for a root that is no table) fails: \<^verbatim>\<open>tbl_marshal\<close> has
  no check of its argument (\<^verbatim>\<open>tbl_unmarshal\<close> has one, \<^verbatim>\<open>luaL_checklstring\<close>), and
  \<^verbatim>\<open>mar_pack\<close> calls \<^verbatim>\<open>lua_next\<close> on whatever it was given. For every value that is
  not a table the outcome is the undefined behaviour of \<^verbatim>\<open>lua_next\<close>, not an error
  that the caller could catch.
\<close>

theorem marshal_does_not_check_its_root:
  "tbl_marshal n h hp LNil = Inl Undefined \<and>
   tbl_marshal n h hp (LBool b) = Inl Undefined \<and>
   tbl_marshal n h hp (LNum d) = Inl Undefined \<and>
   tbl_marshal n h hp (LStr s) = Inl Undefined \<and>
   tbl_marshal n h hp (LFun a) = Inl Undefined \<and>
   tbl_marshal n h hp (LUsr a) = Inl Undefined \<and>
   tbl_marshal n h hp (LThread a) = Inl Undefined \<and>
   tbl_marshal n h hp (LLight a) = Inl Undefined"
  by (simp add: tbl_marshal_def buf_write_def lua_next_pairs_def)

section \<open>References to unknown ids (C4)\<close>

text \<open>
  A key \<^verbatim>\<open>lua_settable\<close> accepts: neither nil nor NaN.
\<close>

definition usable_key :: "lval \<Rightarrow> bool" where
  "usable_key k = (k \<noteq> LNil \<and> (case k of LNum d \<Rightarrow> \<not> is_nan d | _ \<Rightarrow> True))"

definition one_table_state :: ustate where
  "one_table_state = \<lparr>urefs = Map.empty, uheap = \<lparr>tabs = [plain []], funs = [], usrs = []\<rparr>\<rparr>"

lemma unknown_reference_nil:
  assumes "urefs st ref = None"
    and "ty = 5 \<or> ty = 6 \<or> ty = 7"
    and "buf \<le> length pre" and "(length pre - buf) + 6 \<le> len"
  shows "unpack_value h (pre @ [ty, 1] @ int_obj ref @ post) buf len (length pre) idx st
           = Inr (LNil, length pre + 6, idx, st)"
  using assms
  apply (subst unpack_value.simps)
  apply (auto simp: peek_append peek_append_Suc mar_incr_ptr_def mar_next_len_append ref_get_def)
  done

lemma lua_settable_nil_value:
  "usable_key k \<Longrightarrow>
   lua_settable hp t k LNil
     = Inr (hp\<lparr>tabs := (tabs hp)[t := (tabs hp ! t)\<lparr>tpairs := tab_put (table_pairs hp t) k LNil\<rparr>]\<rparr>)"
  by (cases k) (simp_all add: lua_settable_def usable_key_def)

text \<open>
  C4 (a back-reference whose id was never registered makes unmarshal fail with
  CorruptStream) does not hold: none of the three \<^verbatim>\<open>MAR_TREF\<close> branches checks the id,
  \<^verbatim>\<open>lua_rawgeti(L, 2, ref)\<close> pushes nil for an id that is not in the table. What holds
  instead, for a table, function or userdata record (type byte 5, 6, 7) with tag
  \<^verbatim>\<open>MAR_TREF\<close> anywhere in a window that has room for its six bytes, is the four
  statements of the theorem, in this order.

  \<^enum> When the id is not registered, \<^verbatim>\<open>unpack_value\<close> decodes the record to nil, without
    error and without a change of the counter or the state.
  \<^enum> When \<^verbatim>\<open>mar_unpack\<close> has decoded a key \<open>k\<close> and such a record follows it as the value,
    \<^verbatim>\<open>mar_unpack\<close> is the \<^verbatim>\<open>lua_settable\<close> of nil under \<open>k\<close>, followed by the decoding of
    the rest of the window behind the record.
  \<^enum> That \<^verbatim>\<open>lua_settable\<close> does not raise for a key that is neither nil nor NaN: it is
    the raw store of nil under the key, which adds no pair.
  \<^enum> When such a record is the key of a pair in \<^verbatim>\<open>mar_unpack\<close> and the value behind it
    decodes, \<^verbatim>\<open>lua_settable\<close> raises "table index is nil".

  Nothing is said about what the caller of \<^verbatim>\<open>mar_unpack\<close> then does with the table (the
  decoder of a userdata record calls field 1 of it, which raises when that field is nil).
\<close>

theorem unknown_reference_decodes_to_nil:
  "(urefs st ref = None \<and> (ty = 5 \<or> ty = 6 \<or> ty = 7) \<and>
    buf \<le> length pre \<and> (length pre - buf) + 6 \<le> len
    \<longrightarrow> unpack_value h (pre @ [ty, 1] @ int_obj ref @ post) buf len (length pre) idx st
          = Inr (LNil, length pre + 6, idx, st)) \<and>
   (mem = pre @ [ty, 1] @ int_obj ref @ post \<and> (ty = 5 \<or> ty = 6 \<or> ty = 7) \<and>
    buf \<le> length pre \<and> (length pre - buf) + 6 \<le> len \<and> p - buf < len \<and>
    unpack_value h mem buf len p idx st = Inr (k, length pre, idx1, st1) \<and>
    urefs st1 ref = None
    \<longrightarrow> mar_unpack h mem buf len p idx t st
          = bnd (lua_settable (uheap st1) t k LNil)
              (\<lambda>hp. mar_unpack h mem buf len (length pre + 6) idx1 t (st1\<lparr>uheap := hp\<rparr>))) \<and>
   (usable_key k \<longrightarrow>
      lua_settable hp t k LNil
        = Inr (hp\<lparr>tabs := (tabs hp)[t := (tabs hp ! t)\<lparr>tpairs := tab_put (table_pairs hp t) k LNil\<rparr>]\<rparr>)) \<and>
   (mem = pre @ [ty, 1] @ int_obj ref @ post \<and> (ty = 5 \<or> ty = 6 \<or> ty = 7) \<and>
    buf \<le> length pre \<and> (length pre - buf) + 6 \<le> len \<and>
    urefs st ref = None \<and>
    unpack_value h mem buf len (length pre + 6) idx st = Inr (v, p2, idx2, st2)
    \<longrightarrow> mar_unpack h mem buf len (length pre) idx t st = Inl TableIndexIsNil)"
proof (intro conjI impI)
  assume "urefs st ref = None \<and> (ty = 5 \<or> ty = 6 \<or> ty = 7) \<and>
    buf \<le> length pre \<and> (length pre - buf) + 6 \<le> len"
  then show "unpack_value h (pre @ [ty, 1] @ int_obj ref @ post) buf len (length pre) idx st
          = Inr (LNil, length pre + 6, idx, st)"
    by (intro unknown_reference_nil) auto
next
  assume a: "mem = pre @ [ty, 1] @ int_obj ref @ post \<and> (ty = 5 \<or> ty = 6 \<or> ty = 7) \<and>
    buf \<le> length pre \<and> (length pre - buf) + 6 \<le> len \<and> p - buf < len \<and>
    unpack_value h mem buf len p idx st = Inr (k, length pre, idx1, st1) \<and>
    urefs st1 ref = None"
  then have r: "unpack_value h mem buf len (length pre) idx1 st1 = Inr (LNil, length pre + 6, idx1, st1)"
    using unknown_reference_nil [of st1 ref ty buf pre len h post idx1] by auto
  from a have k: "unpack_value h mem buf len p idx st = Inr (k, length pre, idx1, st1)"
    and c: "p - buf < len" by auto
  show "mar_unpack h mem buf len p idx t st
          = bnd (lua_settable (uheap st1) t k LNil)
              (\<lambda>hp. mar_unpack h mem buf len (length pre + 6) idx1 t (st1\<lparr>uheap := hp\<rparr>))"
    by (subst mar_unpack.simps) (simp add: k c r)
next
  assume "usable_key k"
  then show "lua_settable hp t k LNil
        = Inr (hp\<lparr>tabs := (tabs hp)[t := (tabs hp ! t)\<lparr>tpairs := tab_put (table_pairs hp t) k LNil\<rparr>]\<rparr>)"
    by (rule lua_settable_nil_value)
next
  assume a: "mem = pre @ [ty, 1] @ int_obj ref @ post \<and> (ty = 5 \<or> ty = 6 \<or> ty = 7) \<and>
    buf \<le> length pre \<and> (length pre - buf) + 6 \<le> len \<and>
    urefs st ref = None \<and>
    unpack_value h mem buf len (length pre + 6) idx st = Inr (v, p2, idx2, st2)"
  then have r: "unpack_value h mem buf len (length pre) idx st = Inr (LNil, length pre + 6, idx, st)"
    using unknown_reference_nil [of st ref ty buf pre len h post idx] by auto
  from a have v: "unpack_value h mem buf len (length pre + 6) idx st = Inr (v, p2, idx2, st2)"
    and c: "length pre - buf < len" by auto
  show "mar_unpack h mem buf len (length pre) idx t st = Inl TableIndexIsNil"
    by (subst mar_unpack.simps) (simp add: v c r lua_settable_def)
qed

theorem unknown_reference_decodes_to_nil_witness:
  "unpack_value no_host ([1, 1] @ [5, 1] @ int_obj 7 @ []) 0 8 (length [1, 1 :: byte]) 1 one_table_state
     = Inr (LNil, length [1, 1 :: byte] + 6, 1, one_table_state) \<and>
   mar_unpack no_host ([1, 1] @ [5, 1] @ int_obj 7 @ []) 0 8 0 1 0 one_table_state
     = Inr one_table_state \<and>
   lua_settable (uheap one_table_state) 0 (LBool True) LNil = Inr (uheap one_table_state) \<and>
   mar_unpack no_host ([] @ [5, 1] @ int_obj 7 @ [1, 1]) 0 8 (length ([] :: byte list)) 1 0 one_table_state
     = Inl TableIndexIsNil"
  using unknown_reference_decodes_to_nil [where st = one_table_state and ref = 7 and ty = 5 and buf = 0
      and pre = "[1, 1]" and len = 8 and h = no_host and post = "[]" and idx = 1
      and mem = "[1, 1] @ [5, 1] @ int_obj 7 @ []" and p = 0 and k = "LBool True" and ?idx1.0 = 1
      and ?st1.0 = one_table_state and t = 0 and hp = "uheap one_table_state"]
    unknown_reference_decodes_to_nil [where st = one_table_state and ref = 7 and ty = 5 and buf = 0
      and pre = "[]" and len = 8 and h = no_host and post = "[1, 1]" and idx = 1
      and mem = "[] @ [5, 1] @ int_obj 7 @ [1, 1]" and v = "LBool True" and ?p2.0 = 8 and ?idx2.0 = 1
      and ?st2.0 = one_table_state and t = 0]
  by (simp add: mar_eval one_table_state_def plain_def usable_key_def no_host_def)

text \<open>
  The stream below is a header and the pair (\<^verbatim>\<open>true\<close>, reference to id 7). Nothing is
  registered, and unmarshal returns a value: the empty table (storing nil under a key
  leaves no pair). As a key the same reference makes \<^verbatim>\<open>lua_settable\<close> raise.
\<close>

theorem unknown_reference_returns_a_value:
  "tbl_unmarshal no_host empty_heap [0x8e, 1, 1, 1, 5, 1, 7, 0, 0, 0]
     = Inr (LTab 1, \<lparr>tabs = [plain [], plain []], funs = [], usrs = []\<rparr>)"
  by (simp add: mar_eval empty_heap_def plain_def)

lemma unknown_reference_as_key:
  "tbl_unmarshal h hp [0x8e, 1, 5, 1, 7, 0, 0, 0, 1, 1] = Inl TableIndexIsNil"
  by (simp add: mar_eval)

section \<open>A userdata with a persist hook\<close>

text \<open>
  A userdata (object 0) whose \<^verbatim>\<open>__persist\<close> hook is the C function 0; the hook returns
  the Lua function 1, which has one upvalue. \<open>opaque_record\<close> is the record
  \<^verbatim>\<open>pack_value\<close> writes for the userdata: type 7, tag \<^verbatim>\<open>MAR_TUSR\<close>, length 36, and the
  pair (1, function 1) of the wrapper; the function is type 6, tag \<^verbatim>\<open>MAR_TVAL\<close>, a
  2-byte chunk, and a 15-byte table of upvalues.
\<close>

definition opaque_heap :: heap where
  "opaque_heap =
     \<lparr>tabs = [plain [(nkey 1, LUsr 0)]],
      funs = [\<lparr>fwhat = WhatC, fdump = [], fupvals = []\<rparr>,
              \<lparr>fwhat = WhatLua, fdump = [1, 0xaa], fupvals = [LStr [0x73]]\<rparr>],
      usrs = [Some (LFun 0)]\<rparr>"

definition opaque_record :: "byte list" where
  "opaque_record =
     [7, 3, 36, 0, 0, 0,
      3, 0, 0, 0, 0, 0, 0, 0xf0, 0x3f,
      6, 2, 2, 0, 0, 0, 1, 0xaa,
      15, 0, 0, 0, 3, 0, 0, 0, 0, 0, 0, 0xf0, 0x3f, 4, 1, 0, 0, 0, 0x73]"

section \<open>The order of registration in the decoder (C5)\<close>

text \<open>
  The Lua value \<^verbatim>\<open>{ u, S }\<close> (table 0) with \<^verbatim>\<open>S = {"s"}\<close> (table 1) and a userdata \<open>u\<close>
  (object 0) whose \<^verbatim>\<open>__persist\<close> hook is the C function 0; the hook returns the Lua
  function 1, the reviver, which has \<open>S\<close> as its one upvalue. \<open>captured_stream\<close> is what
  \<^verbatim>\<open>tbl_marshal\<close> writes for it: the header; the key 1 and the record of \<open>u\<close> (type 7, tag
  \<^verbatim>\<open>MAR_TUSR\<close>, 51 bytes: the pair (1, reviver) of the wrapper, the reviver being type 6,
  tag \<^verbatim>\<open>MAR_TVAL\<close>, a 2-byte chunk and a 30-byte table of upvalues that holds \<open>S\<close> as a
  table by value); the key 2 and a reference to id 3.
\<close>

definition captured_heap :: heap where
  "captured_heap =
     \<lparr>tabs = [plain [(nkey 1, LUsr 0), (nkey 2, LTab 1)],
              plain [(nkey 1, LStr [0x73])]],
      funs = [\<lparr>fwhat = WhatC, fdump = [], fupvals = []\<rparr>,
              \<lparr>fwhat = WhatLua, fdump = [1, 0xaa], fupvals = [LTab 1]\<rparr>],
      usrs = [Some (LFun 0)]\<rparr>"

definition captured_stream :: "byte list" where
  "captured_stream =
     [0x8e, 1,
      3, 0, 0, 0, 0, 0, 0, 0xf0, 0x3f,
      7, 3, 51, 0, 0, 0,
        3, 0, 0, 0, 0, 0, 0, 0xf0, 0x3f,
        6, 2, 2, 0, 0, 0, 1, 0xaa,
        30, 0, 0, 0,
          3, 0, 0, 0, 0, 0, 0, 0xf0, 0x3f,
          5, 2, 15, 0, 0, 0,
            3, 0, 0, 0, 0, 0, 0, 0xf0, 0x3f, 4, 1, 0, 0, 0, 0x73,
      3, 0, 0, 0, 0, 0, 0, 0, 0x40,
      5, 1, 3, 0, 0, 0]"

text \<open>
  C5 (every tag=Value and tag=Opaque record registers a container at the next id before
  its contents are decoded, so that the decoder gives ids in the order of the packer and
  the Nth tracked value gets id N) fails on this input. For a value with a hook the
  packer reserves an id for the value and packs the wrapper with the counter after it
  (\<^verbatim>\<open>(*idx)++\<close>, then \<^verbatim>\<open>mar_pack(L, &rec_buf, *idx)\<close>): \<open>u\<close> is 1, the reviver 2, \<open>S\<close> 3.
  The decoder registers nothing before the contents: it decodes the wrapper with the
  counter as it is (\<^verbatim>\<open>mar_unpack(L, *p, l, *idx)\<close>), and uses and increments it after the call
  of the reviver: the reviver is 1, \<open>S\<close> is 2, the result of the call is then stored at 1.
  Field 2 of the root was written as a reference to id 3, which the decoder never gives:
  in the original \<^verbatim>\<open>root[2]\<close> is \<open>S\<close>, in the clone it is nil.
\<close>

theorem opaque_record_shifts_ids:
  "field captured_heap (LTab 0) (nkey 2) = LTab 1 \<and>
   tbl_marshal (Suc (Suc (Suc (Suc 0)))) demo_host captured_heap (LTab 0)
     = Inr (captured_stream, captured_heap) \<and>
   (case tbl_unmarshal demo_host captured_heap captured_stream of
      Inl e \<Rightarrow> False
    | Inr (c, hp) \<Rightarrow> field hp c (nkey 1) = LNum 0 \<and> field hp c (nkey 2) = LNil) \<and>
   (case tbl_clone (Suc (Suc (Suc (Suc 0)))) demo_host captured_heap (LTab 0) of
      Inl e \<Rightarrow> False
    | Inr (c, hp) \<Rightarrow> field hp c (nkey 1) = LNum 0 \<and> field hp c (nkey 2) = LNil)"
  by (simp add: mar_eval field_def nkey_def plain_def captured_heap_def captured_stream_def demo_host_def)

text \<open>
  The ids on both sides, for the record of the userdata alone: the packer leaves
  the userdata at 1 and the reviver at 2, the decoder leaves the result of the call at 1
  and nothing at 2.
\<close>

lemma opaque_ids_in_pack_and_decode:
  "(case pack_value (Suc (Suc (Suc 0))) demo_host (LUsr 0) (LUsr 0) [] 1
           \<lparr>prefs = Map.empty, pheap = opaque_heap\<rparr> of
      Inl e \<Rightarrow> False
    | Inr (bytes, idx, st) \<Rightarrow>
        bytes = opaque_record \<and> idx = 2 \<and> prefs st (LUsr 0) = Some 1 \<and> prefs st (LFun 1) = Some 2) \<and>
   (case unpack_value demo_host opaque_record 0 42 0 1 \<lparr>urefs = Map.empty, uheap = opaque_heap\<rparr> of
      Inl e \<Rightarrow> False
    | Inr (v, p, idx, st) \<Rightarrow>
        v = LNum 0 \<and> p = 42 \<and> idx = 2 \<and> urefs st 1 = Some (LNum 0) \<and> urefs st 2 = None)"
  by (simp add: mar_eval demo_host_def opaque_heap_def opaque_record_def plain_def nkey_def)

text \<open>
  A table record does register first: a table whose field refers back to the id the
  table gets decodes to a table that contains itself.
\<close>

lemma self_reference_resolves:
  "8 \<le> len \<Longrightarrow>
   unpack_value h ([5, 2] @ int_obj 8 @ [1, b, 5, 1] @ int_obj i @ post) 0 (6 + len) 0 i ust
     = Inr (LTab (length (tabs (uheap ust))), 14, i + 1,
            \<lparr>urefs = (urefs ust)(i \<mapsto> LTab (length (tabs (uheap ust)))),
             uheap = (uheap ust)\<lparr>tabs := tabs (uheap ust) @
               [plain [(LBool (b \<noteq> 0), LTab (length (tabs (uheap ust))))]]\<rparr>\<rparr>)"
  by (simp add: mar_eval length_int_obj obj_value_int_obj plain_def nth_append del: int_obj_bytes)

section \<open>The persist hook (C7)\<close>

text \<open>
  C7 (the hook yields a reviver and a state record, the stream carries the reviver in a
  one-element wrapper followed by the separately packed state record, and the reviver is
  called with the state record as its only argument) is not what the code does. The hook
  is called with the value and one result is taken, which has to be a function; the record
  is the type byte, \<^verbatim>\<open>MAR_TUSR\<close>, and the length-prefixed pairs of the wrapper
  \<^verbatim>\<open>{ [1] = reviver }\<close>, packed with the counter after the value's own id (the state of
  the reviver travels as its upvalues, inside its function record). The decoder fills a
  fresh wrapper from the record, calls field 1 of it with no argument, and registers and
  returns the result.
\<close>

theorem persist_hook_protocol:
  "(prefs st v = None \<and> (v = LUsr a \<or> v = LTab a) \<and>
    luaL_getmetafield (pheap st) v = Some hook \<and>
    h_call h (pheap st) hook [v] = Inr (r, hp1) \<and> lua_type r = LUA_TFUNCTION \<and>
    mar_pack n h [(LNum (num_of_nat 1), r)] [] (idx + 1)
      (st\<lparr>prefs := (prefs st)(v \<mapsto> idx), pheap := hp1\<rparr>) = Inr (body, st2) \<and>
    length body \<le> UINT32_MAX
    \<longrightarrow> pack_value (Suc n) h v tp out idx st
          = Inr (out @ [ucast (lua_type v), 3] @ take 4 (size_t_obj (length body)) @ body,
                 idx + 1, st2)) \<and>
   ((ty = 5 \<or> ty = 7) \<and> mem = pre @ [ty, 3] @ int_obj l @ post \<and>
    buf \<le> length pre \<and> (length pre - buf) + 6 + unat l \<le> len \<and>
    mar_unpack h mem (length pre + 6) (unat l) (length pre + 6) i
      (fst (new_table ust)) (snd (new_table ust)) = Inr ust2 \<and>
    h_call h (uheap ust2) (field (uheap ust2) (LTab (fst (new_table ust))) (LNum (num_of_nat 1))) []
      = Inr (x, hp3)
    \<longrightarrow> unpack_value h mem buf len (length pre) i ust
          = Inr (x, length pre + 6 + unat l, i + 1, ref_set (ust2\<lparr>uheap := hp3\<rparr>) i x))"
proof (intro conjI impI)
  assume a: "prefs st v = None \<and> (v = LUsr a \<or> v = LTab a) \<and>
    luaL_getmetafield (pheap st) v = Some hook \<and>
    h_call h (pheap st) hook [v] = Inr (r, hp1) \<and> lua_type r = LUA_TFUNCTION \<and>
    mar_pack n h [(LNum (num_of_nat 1), r)] [] (idx + 1)
      (st\<lparr>prefs := (prefs st)(v \<mapsto> idx), pheap := hp1\<rparr>) = Inr (body, st2) \<and>
    length body \<le> UINT32_MAX"
  then have "pack_persist n h hook v b idx st
      = Inr (b @ [3] @ take 4 (size_t_obj (length body)) @ body, idx + 1, st2)" for b
    by (simp add: Let_def buf_write_take1_int write_rec_ok del: mar_pack.simps)
  with a show "pack_value (Suc n) h v tp out idx st
          = Inr (out @ [ucast (lua_type v), 3] @ take 4 (size_t_obj (length body)) @ body,
                 idx + 1, st2)"
    by (auto simp: buf_write_take1_int simp del: pack_persist.simps mar_pack.simps)
next
  assume b: "(ty = 5 \<or> ty = 7) \<and> mem = pre @ [ty, 3] @ int_obj l @ post \<and>
    buf \<le> length pre \<and> (length pre - buf) + 6 + unat l \<le> len \<and>
    mar_unpack h mem (length pre + 6) (unat l) (length pre + 6) i
      (fst (new_table ust)) (snd (new_table ust)) = Inr ust2 \<and>
    h_call h (uheap ust2) (field (uheap ust2) (LTab (fst (new_table ust))) (LNum (num_of_nat 1))) []
      = Inr (x, hp3)"
  then show "unpack_value h mem buf len (length pre) i ust
          = Inr (x, length pre + 6 + unat l, i + 1, ref_set (ust2\<lparr>uheap := hp3\<rparr>) i x)"
    apply (subst unpack_value.simps)
    apply (auto simp: peek_append peek_append_Suc mar_incr_ptr_def mar_next_len_append
        revive_def field_def case_prod_beta Let_def)
    done
qed

theorem persist_hook_protocol_witness:
  "pack_value (Suc (Suc (Suc 0))) demo_host (LUsr 0) (LUsr 0) [] 1 \<lparr>prefs = Map.empty, pheap = opaque_heap\<rparr>
     = Inr (opaque_record, 2, \<lparr>prefs = [LUsr 0 \<mapsto> 1, LFun 1 \<mapsto> 2], pheap = opaque_heap\<rparr>) \<and>
   map_sum id (\<lambda>(v, p, j, s). (v, p, j, urefs s 1))
     (unpack_value demo_host opaque_record 0 42 0 1 \<lparr>urefs = Map.empty, uheap = opaque_heap\<rparr>)
     = Inr (LNum 0, 42, 2, Some (LNum 0))"
  using persist_hook_protocol [where st = "\<lparr>prefs = Map.empty, pheap = opaque_heap\<rparr>"
      and v = "LUsr 0" and a = 0 and hook = "LFun 0" and h = demo_host and r = "LFun 1"
      and ?hp1.0 = opaque_heap and n = "Suc (Suc 0)" and idx = 1
      and body = "drop 6 opaque_record"
      and ?st2.0 = "\<lparr>prefs = [LUsr 0 \<mapsto> 1, LFun 1 \<mapsto> 2], pheap = opaque_heap\<rparr>"
      and tp = "LUsr 0" and out = "[]" and ty = 7 and mem = opaque_record and pre = "[]" and l = 36
      and post = "drop 6 opaque_record" and buf = 0 and len = 42 and i = 1
      and ust = "\<lparr>urefs = Map.empty, uheap = opaque_heap\<rparr>"
      and ?ust2.0 = "projr (mar_unpack demo_host opaque_record 6 36 6 1 1
           \<lparr>urefs = Map.empty, uheap = opaque_heap\<lparr>tabs := tabs opaque_heap @ [plain []]\<rparr>\<rparr>)"
      and x = "LNum 0"
      and ?hp3.0 = "uheap (projr (mar_unpack demo_host opaque_record 6 36 6 1 1
           \<lparr>urefs = Map.empty, uheap = opaque_heap\<lparr>tabs := tabs opaque_heap @ [plain []]\<rparr>\<rparr>))"]
  by (simp add: mar_eval opaque_heap_def opaque_record_def demo_host_def plain_def field_def)

text \<open>
  The stream of \<^verbatim>\<open>{ u }\<close>, \<open>u\<close> the userdata above, ends with the wrapper: no state record
  follows it. In the clone the field holds what the loaded reviver (function 2) returns
  for no argument, not what it returns for one argument.
\<close>

theorem reviver_is_called_without_arguments:
  "tbl_marshal (Suc (Suc (Suc (Suc 0)))) demo_host opaque_heap (LTab 0)
     = Inr ([0x8e, 1, 3, 0, 0, 0, 0, 0, 0, 0xf0, 0x3f] @ opaque_record, opaque_heap) \<and>
   (case tbl_clone (Suc (Suc (Suc (Suc 0)))) demo_host opaque_heap (LTab 0) of
      Inl e \<Rightarrow> False
    | Inr (c, hp) \<Rightarrow>
        field hp c (nkey 1) = LNum 0 \<and>
        h_call demo_host hp (LFun 2) [] = Inr (LNum 0, hp) \<and>
        h_call demo_host hp (LFun 2) [LTab 4] = Inr (LNum 0x3FF0000000000000, hp))"
  by (simp add: mar_eval demo_host_def opaque_heap_def opaque_record_def plain_def nkey_def field_def)

section \<open>Values that are dropped (C8)\<close>

text \<open>
  \<^verbatim>\<open>{ k = co, u = ud, true }\<close> with a coroutine and a userdata without metatable as
  values, and \<^verbatim>\<open>{ [co] = true }\<close> with the coroutine as the key.
\<close>

definition dropped_heap :: heap where
  "dropped_heap =
     \<lparr>tabs = [plain [(LStr [0x6b], LThread 0), (LStr [0x75], LUsr 0), (nkey 1, LBool True)]],
      funs = [], usrs = [None]\<rparr>"

definition thread_key_heap :: heap where
  "thread_key_heap = \<lparr>tabs = [plain [(LThread 0, LBool True)]], funs = [], usrs = []\<rparr>"

text \<open>
  C8 (a coroutine or a userdata without hook at some position of a record marshals
  without error and unmarshals to nil at that position without error) holds where the
  position is the value of a pair, not where it is the key. The packer writes the type
  byte alone for a coroutine and the type byte and \<^verbatim>\<open>MAR_TVAL\<close> for a userdata that has
  no hook and no id yet, without error and without giving an id; the decoder reads either
  as nil; \<^verbatim>\<open>lua_settable\<close> stores the nil under a key that is neither nil nor NaN
  (so the key ends up absent) and raises when the nil is the key.
\<close>

theorem dropped_values_decode_to_nil:
  "pack_value (Suc n) h (LThread a) tp out idx st = Inr (out @ [8], idx, st) \<and>
   (prefs st (LUsr a) = None \<and> luaL_getmetafield (pheap st) (LUsr a) = None \<longrightarrow>
      pack_value (Suc n) h (LUsr a) tp out idx st = Inr (out @ [7, 2], idx, st)) \<and>
   (buf \<le> length pre \<and> (length pre - buf) + 1 \<le> len \<longrightarrow>
      unpack_value h (pre @ [8] @ post) buf len (length pre) i ust
        = Inr (LNil, length pre + 1, i, ust)) \<and>
   (buf \<le> length pre \<and> (length pre - buf) + 2 \<le> len \<longrightarrow>
      unpack_value h (pre @ [7, 2] @ post) buf len (length pre) i ust
        = Inr (LNil, length pre + 2, i, ust)) \<and>
   (usable_key k \<longrightarrow>
      lua_settable hp t k LNil
        = Inr (hp\<lparr>tabs := (tabs hp)[t := (tabs hp ! t)\<lparr>tpairs := tab_put (table_pairs hp t) k LNil\<rparr>]\<rparr>)) \<and>
   lua_settable hp t LNil v = Inl TableIndexIsNil"
proof -
  have p1: "pack_value (Suc n) h (LThread a) tp out idx st = Inr (out @ [8], idx, st)"
    by (simp add: buf_write_def int_obj_bytes)
  have p2: "pack_value (Suc n) h (LUsr a) tp out idx st = Inr (out @ [7, 2], idx, st)"
    if "prefs st (LUsr a) = None" "luaL_getmetafield (pheap st) (LUsr a) = None"
    using that by (simp add: buf_write_def int_obj_bytes)
  have u1: "unpack_value h (pre @ [8] @ post) buf len (length pre) i ust
        = Inr (LNil, length pre + 1, i, ust)"
    if "buf \<le> length pre" "(length pre - buf) + 1 \<le> len"
    using that by (subst unpack_value.simps) (simp add: peek_append mar_incr_ptr_def)
  have u2: "unpack_value h (pre @ [7, 2] @ post) buf len (length pre) i ust
        = Inr (LNil, length pre + 2, i, ust)"
    if "buf \<le> length pre" "(length pre - buf) + 2 \<le> len"
    using that by (subst unpack_value.simps) (simp add: peek_append peek_append_Suc mar_incr_ptr_def)
  have s1: "lua_settable hp t k LNil
        = Inr (hp\<lparr>tabs := (tabs hp)[t := (tabs hp ! t)\<lparr>tpairs := tab_put (table_pairs hp t) k LNil\<rparr>]\<rparr>)"
    if "usable_key k"
    using that by (cases k) (simp_all add: lua_settable_def usable_key_def)
  have s2: "lua_settable hp t LNil v = Inl TableIndexIsNil"
    by (simp add: lua_settable_def)
  from p1 p2 u1 u2 s1 s2 show ?thesis by blast
qed

theorem dropped_values_decode_to_nil_witness:
  "pack_value (Suc 0) no_host (LThread 0) (LThread 0) [] 1 \<lparr>prefs = Map.empty, pheap = dropped_heap\<rparr>
     = Inr ([] @ [8], 1, \<lparr>prefs = Map.empty, pheap = dropped_heap\<rparr>) \<and>
   pack_value (Suc 0) no_host (LUsr 0) (LThread 0) [] 1 \<lparr>prefs = Map.empty, pheap = dropped_heap\<rparr>
     = Inr ([] @ [7, 2], 1, \<lparr>prefs = Map.empty, pheap = dropped_heap\<rparr>) \<and>
   unpack_value no_host ([] @ [8] @ []) 0 2 (length ([] :: byte list)) 1 start_state
     = Inr (LNil, length ([] :: byte list) + 1, 1, start_state) \<and>
   unpack_value no_host ([] @ [7, 2] @ []) 0 2 (length ([] :: byte list)) 1 start_state
     = Inr (LNil, length ([] :: byte list) + 2, 1, start_state) \<and>
   lua_settable dropped_heap 0 (LStr [0x6b]) LNil
     = Inr (dropped_heap\<lparr>tabs := (tabs dropped_heap)[0 := (tabs dropped_heap ! 0)\<lparr>tpairs :=
         tab_put (table_pairs dropped_heap 0) (LStr [0x6b]) LNil\<rparr>]\<rparr>) \<and>
   lua_settable dropped_heap 0 LNil (LBool True) = Inl TableIndexIsNil"
  using dropped_values_decode_to_nil [of 0 no_host 0 "LThread 0" "[]" 1 "\<lparr>prefs = Map.empty, pheap = dropped_heap\<rparr>"
      0 "[]" 2 "[]" 1 start_state "LStr [0x6b]" dropped_heap 0 "LBool True"]
  by (simp add: usable_key_def luaL_getmetafield_def dropped_heap_def)

lemma dropped_values_round_trip:
  "tbl_marshal (Suc (Suc 0)) h dropped_heap (LTab 0)
     = Inr ([0x8e, 1, 4, 1, 0, 0, 0, 0x6b, 8, 4, 1, 0, 0, 0, 0x75, 7, 2,
             3, 0, 0, 0, 0, 0, 0, 0xf0, 0x3f, 1, 1], dropped_heap) \<and>
   (case tbl_clone (Suc (Suc 0)) h dropped_heap (LTab 0) of
      Inl e \<Rightarrow> False
    | Inr (c, hp) \<Rightarrow> field hp c (LStr [0x6b]) = LNil \<and> field hp c (LStr [0x75]) = LNil
        \<and> field hp c (nkey 1) = LBool True)"
  by (simp add: mar_eval field_def nkey_def plain_def dropped_heap_def)

text \<open>
  With the coroutine as a key, marshal succeeds and unmarshal raises.
\<close>

theorem thread_key_fails_to_decode:
  "tbl_marshal (Suc (Suc 0)) no_host thread_key_heap (LTab 0) = Inr ([0x8e, 1, 8, 1, 1], thread_key_heap) \<and>
   tbl_clone (Suc (Suc 0)) no_host thread_key_heap (LTab 0) = Inl TableIndexIsNil"
  by (simp add: mar_eval plain_def thread_key_heap_def)

section \<open>Truncated streams (C6)\<close>




section \<open>The header and the reversal (C9)\<close>

text \<open>
  The loop of \<^verbatim>\<open>tbl_unmarshal\<close> reverses a segment of a buffer in place, and with it the
  whole payload when its length fits an \<^verbatim>\<open>int\<close>.
\<close>

lemma swap_loop_rev:
  "swap_loop (pre @ mid @ suf) (length pre) (length pre + length mid - 1) (length mid div 2)
     = pre @ rev mid @ suf"
proof (induction "length mid" arbitrary: pre mid suf rule: less_induct)
  case less
  show ?case
  proof (cases mid)
    case Nil
    then show ?thesis by simp
  next
    case (Cons x ys)
    show ?thesis
    proof (cases ys rule: rev_cases)
      case Nil
      with Cons show ?thesis by simp
    next
      case (snoc m y)
      have mid: "mid = x # m @ [y]" using Cons snoc by simp
      have n: "length mid div 2 = Suc (length m div 2)" using mid by simp
      let ?p = "pre @ x # m @ y # suf"
      have j: "length pre + length mid - 1 = length (pre @ x # m)" using mid by simp
      have pj: "?p ! length (pre @ x # m) = y"
        using nth_append_length [of "pre @ x # m" y suf] by simp
      have pi: "?p ! length pre = x" by simp
      have upd: "?p[length pre := y, length (pre @ x # m) := x] = (pre @ [y]) @ m @ (x # suf)"
      proof -
        have "?p[length pre := y] = (pre @ y # m) @ y # suf" by simp
        moreover have "length (pre @ x # m) = length (pre @ y # m)" by simp
        ultimately have "?p[length pre := y, length (pre @ x # m) := x]
            = ((pre @ y # m) @ y # suf)[length (pre @ y # m) := x]" by simp
        also have "\<dots> = (pre @ y # m) @ x # suf" by (rule list_update_length)
        finally show ?thesis by simp
      qed
      have "swap_loop (pre @ mid @ suf) (length pre) (length pre + length mid - 1) (length mid div 2)
          = swap_loop ((pre @ [y]) @ m @ (x # suf)) (Suc (length pre)) (length (pre @ x # m) - 1) (length m div 2)"
        unfolding n j using mid pj pi upd by simp
      also have "length (pre @ x # m) - 1 = length (pre @ [y]) + length m - 1" by simp
      also have "Suc (length pre) = length (pre @ [y])" by simp
      also have "swap_loop ((pre @ [y]) @ m @ (x # suf)) (length (pre @ [y])) (length (pre @ [y]) + length m - 1) (length m div 2)
          = (pre @ [y]) @ rev m @ (x # suf)"
        by (rule less) (simp add: mid)
      finally show ?thesis using mid by simp
    qed
  qed
qed

lemma sint_word_of_nat_small: "l < 2147483648 \<Longrightarrow> sint (word_of_nat l :: cint) = int l"
  by (simp add: signed_of_nat signed_take_bit_int_eq_self)

lemma reverse_bytes_rev:
  assumes "length p < 2147483648"
  shows "reverse_bytes p (length p) = Inr (rev p)"
proof -
  have "swap_loop ([] @ p @ []) (length ([] :: byte list)) (length ([] :: byte list) + length p - 1) (length p div 2)
      = [] @ rev p @ []"
    by (rule swap_loop_rev)
  then show ?thesis
    using assms by (simp add: reverse_bytes_def sint_word_of_nat_small Let_def)
qed

text \<open>
  What holds of C9: a string shorter than two bytes raises "bad header", a first byte
  other than \<^verbatim>\<open>MAR_MAGIC\<close> raises "bad magic"; with a marker that is not the host's and a
  payload of less than \<open>2\<^sup>3\<^sup>1\<close> bytes, what is decoded is the reversed payload (in a buffer
  of \<^verbatim>\<open>buf_init\<close>); and the reversal of the reversed image of a number or of a length
  field is the image the host reads the value from.
\<close>

lemma unmarshal_header_and_reversal:
  "(length s < 2 \<longrightarrow> tbl_unmarshal h hp s = Inl BadHeader) \<and>
   (2 \<le> length s \<and> s ! 0 \<noteq> 0x8e \<longrightarrow> tbl_unmarshal h hp s = Inl BadMagic) \<and>
   (m \<noteq> host_marker \<and> length pl < 2147483648 \<longrightarrow>
      tbl_unmarshal h hp (0x8e # m # pl)
        = bnd (mar_unpack h (rev pl @ h_fresh h (buffer_size (length pl) - length pl)) 0 (length pl) 0 1
                 (Suc (length (tabs hp)))
                 \<lparr>urefs = Map.empty, uheap = hp\<lparr>tabs := tabs hp @ [plain [], plain []]\<rparr>\<rparr>)
            (\<lambda>st. Inr (LTab (Suc (length (tabs hp))), uheap st))) \<and>
   reverse_bytes (rev (double_obj d)) 8 = Inr (double_obj d) \<and>
   reverse_bytes (rev (int_obj w)) 4 = Inr (int_obj w) \<and>
   (obj_value (double_obj d) :: 64 word) = d \<and> (obj_value (int_obj w) :: cint) = w"
proof (intro conjI impI)
  show "length s < 2 \<Longrightarrow> tbl_unmarshal h hp s = Inl BadHeader"
    by (simp add: tbl_unmarshal_def)
  show "2 \<le> length s \<and> s ! 0 \<noteq> 0x8e \<Longrightarrow> tbl_unmarshal h hp s = Inl BadMagic"
    by (simp add: tbl_unmarshal_def)
  show "reverse_bytes (rev (double_obj d)) 8 = Inr (double_obj d)"
    using reverse_bytes_rev [of "rev (double_obj d)"] by (simp add: double_obj_def)
  show "reverse_bytes (rev (int_obj w)) 4 = Inr (int_obj w)"
    using reverse_bytes_rev [of "rev (int_obj w)"] by (simp add: length_int_obj del: int_obj_bytes)
  show "(obj_value (double_obj d) :: 64 word) = d" by (rule obj_value_double_obj)
  show "(obj_value (int_obj w) :: cint) = w" by (rule obj_value_int_obj)
next
  assume a: "m \<noteq> host_marker \<and> length pl < 2147483648"
  then have r: "reverse_bytes pl (length pl) = Inr (rev pl)" by (simp add: reverse_bytes_rev)
  from a have m: "host_marker \<noteq> m" by auto
  from a have u: "\<not> 4294967295 < length pl" by simp
  show "tbl_unmarshal h hp (0x8e # m # pl)
        = bnd (mar_unpack h (rev pl @ h_fresh h (buffer_size (length pl) - length pl)) 0 (length pl) 0 1
                 (Suc (length (tabs hp)))
                 \<lparr>urefs = Map.empty, uheap = hp\<lparr>tabs := tabs hp @ [plain [], plain []]\<rparr>\<rparr>)
            (\<lambda>st. Inr (LTab (Suc (length (tabs hp))), uheap st))"
    using m u by (simp add: tbl_unmarshal_def lua_newtable_def buf_write_def r Let_def plain_def cong: bnd_cong)
qed

text \<open>
  C9 (unmarshal raises for an input shorter than two bytes or with a wrong magic byte;
  for every input with a marker other than the host's it reverses the whole of the
  remaining payload before decoding, which reproduces numbers and length fields) fails in
  its second part for a payload of \<open>2\<^sup>3\<^sup>1 + 2\<close> bytes (\<^verbatim>\<open>buf_write\<close> takes up to
  \<^verbatim>\<open>UINT32_MAX\<close>). The length is copied into \<^verbatim>\<open>int n\<close>, which is then \<open>2 - 2\<^sup>3\<^sup>1\<close>:
  \<^verbatim>\<open>n/2\<close> is not 0, so the loop is entered, and its first iteration reads \<^verbatim>\<open>p[j]\<close> with
  \<open>j = n - 1 < 0\<close>, in front of the buffer. The payload is not reversed and no error is
  raised; the behaviour is undefined.
\<close>

theorem reversal_breaks_on_large_payloads:
  "sint (word_of_nat 2147483650 :: cint) = - 2147483646 \<and>
   reverse_bytes (replicate 2147483650 0) 2147483650 = Inl Undefined \<and>
   tbl_unmarshal h hp (0x8e # 0 # replicate 2147483650 0) = Inl Undefined"
proof -
  have s: "sint (word_of_nat 2147483650 :: cint) = - 2147483646" by simp
  have r: "reverse_bytes (replicate 2147483650 0) 2147483650 = Inl Undefined"
    by (simp add: reverse_bytes_def Let_def)
  have "tbl_unmarshal h hp (0x8e # 0 # replicate 2147483650 0) = Inl Undefined"
    by (simp add: tbl_unmarshal_def lua_newtable_def buf_write_def r Let_def host_marker_1)
  with s r show ?thesis by simp
qed

end
